theory Spec2Isabelle
  imports Complex_Main "HOL-Library.AList" "HOL-Library.Sublist"
begin

section \<open>Connection settings store (src/lib/storage.ts)\<close>

text \<open>
  The browser's localStorage holds four items. \<open>getItem\<close> yields \<open>null\<close> for an item that was
  never stored, which is \<open>None\<close> here. The stored values are the ones \<open>setAuth\<close>,
  \<open>setBaseUrl\<close> and \<open>setConnectionMode\<close> write, so they are modelled at their TypeScript
  types. \<open>envDefaultUrl\<close> is the build-time constant \<open>VITE_DEFAULT_CHROMA_URL\<close>.
\<close>

datatype ConnectionMode = Direct | Proxy

datatype AuthType = AuthNone | AuthToken | AuthBasic | AuthXChromaToken

record AuthCredentials =
  token :: "string option"
  username :: "string option"
  password :: "string option"

record Storage =
  BASE_URL :: "string option"
  CONNECTION_MODE :: "ConnectionMode option"
  AUTH_TYPE :: "AuthType option"
  AUTH_CREDENTIALS :: "AuthCredentials option"
  envDefaultUrl :: "string option"

definition getBaseUrl :: "Storage \<Rightarrow> string" where
  "getBaseUrl st =
     (case BASE_URL st of Some u \<Rightarrow> u
      | None \<Rightarrow> (case envDefaultUrl st of Some u \<Rightarrow> u | None \<Rightarrow> ''http://localhost:8000''))"

definition getConnectionMode :: "Storage \<Rightarrow> ConnectionMode" where
  "getConnectionMode st = (case CONNECTION_MODE st of Some m \<Rightarrow> m | None \<Rightarrow> Direct)"

definition getAuthType :: "Storage \<Rightarrow> AuthType" where
  "getAuthType st = (case AUTH_TYPE st of Some t \<Rightarrow> t | None \<Rightarrow> AuthNone)"

definition getAuthCredentials :: "Storage \<Rightarrow> AuthCredentials" where
  "getAuthCredentials st =
     (case AUTH_CREDENTIALS st of Some c \<Rightarrow> c
      | None \<Rightarrow> \<lparr>token = None, username = None, password = None\<rparr>)"

text \<open>JavaScript truthiness of an optional string: \<open>undefined\<close> and \<open>""\<close> are falsy.\<close>

definition truthy :: "string option \<Rightarrow> bool" where
  "truthy s = (case s of None \<Rightarrow> False | Some t \<Rightarrow> t \<noteq> [])"

text \<open>
  \<open>btoa\<close> is the browser's base64 encoder (RFC 4648, with padding). The strings of the model
  are byte strings, on which \<open>btoa\<close> never throws.
\<close>

definition b64 :: "nat \<Rightarrow> char" where
  "b64 n = ''ABCDEFGHIJKLMNOPQRSTUVWXYZabcdefghijklmnopqrstuvwxyz0123456789+/'' ! (n mod 64)"

fun btoa :: "string \<Rightarrow> string" where
  "btoa [] = []"
| "btoa [a] =
     (let x = (of_char a :: nat)
      in [b64 (x div 4), b64 ((x mod 4) * 16), CHR ''='', CHR ''=''])"
| "btoa [a, b] =
     (let x = (of_char a :: nat); y = (of_char b :: nat)
      in [b64 (x div 4), b64 ((x mod 4) * 16 + y div 16), b64 ((y mod 16) * 4), CHR ''=''])"
| "btoa (a # b # c # rest) =
     (let x = (of_char a :: nat); y = (of_char b :: nat); z = (of_char c :: nat)
      in [b64 (x div 4), b64 ((x mod 4) * 16 + y div 16),
          b64 ((y mod 16) * 4 + z div 64), b64 (z mod 64)] @ btoa rest)"

text \<open>
  \<open>getAuthHeaders\<close>: the returned object literal, as the list of its (name, value) entries.
\<close>

definition getAuthHeaders :: "Storage \<Rightarrow> (string \<times> string) list" where
  "getAuthHeaders st =
     (let type = getAuthType st; creds = getAuthCredentials st
      in case type of
           AuthToken \<Rightarrow>
             (case token creds of
                Some t \<Rightarrow> if truthy (Some t) then [(''Authorization'', ''Bearer '' @ t)] else []
              | None \<Rightarrow> [])
         | AuthBasic \<Rightarrow>
             (case username creds of
                None \<Rightarrow> []
              | Some u \<Rightarrow>
                  if \<not> truthy (Some u) then []
                  else
                    let encoded =
                          btoa (u @ '':'' @ (case password creds of Some p \<Rightarrow> p | None \<Rightarrow> ''''))
                    in [(''Authorization'', ''Basic '' @ encoded)])
         | AuthXChromaToken \<Rightarrow>
             (case token creds of
                Some t \<Rightarrow> if truthy (Some t) then [(''X-Chroma-Token'', t)] else []
              | None \<Rightarrow> [])
         | AuthNone \<Rightarrow> [])"

section \<open>Response schemas (src/lib/zodSchemas.ts)\<close>

text \<open>
  A parsed JSON value, as \<open>res.json()\<close> yields it. An object is the list of its entries,
  read with \<open>map_of\<close>. Numbers are modelled as reals.
\<close>

datatype json =
  JNull | JBool bool | JNum real | JStr string | JArr "json list" | JObj "(string \<times> json) list"

text \<open>
  A zod schema is its \<open>parse\<close> function: \<open>None\<close> stands for a thrown \<open>ZodError\<close>.
  \<open>nullish\<close> is the value of a \<open>.nullable().optional()\<close> field.
\<close>

type_synonym 'a schema = "json \<Rightarrow> 'a option"

datatype 'a nullish = Undefined | Null | Value 'a

fun z_string :: "string schema" where
  "z_string (JStr s) = Some s"
| "z_string _ = None"

fun z_number :: "real schema" where
  "z_number (JNum x) = Some x"
| "z_number _ = None"

fun z_unknown_record :: "(string \<times> json) list schema" where
  "z_unknown_record (JObj kvs) = Some kvs"
| "z_unknown_record _ = None"

fun z_array :: "'a schema \<Rightarrow> 'a list schema" where
  "z_array s (JArr xs) = those (map s xs)"
| "z_array s _ = None"


text \<open>A required key of an object, and a key that is \<open>.nullable().optional()\<close>.\<close>

definition z_field :: "(string \<times> json) list \<Rightarrow> string \<Rightarrow> 'a schema \<Rightarrow> 'a option" where
  "z_field obj k s = (case map_of obj k of None \<Rightarrow> None | Some j \<Rightarrow> s j)"

definition z_nullish_field ::
  "(string \<times> json) list \<Rightarrow> string \<Rightarrow> 'a schema \<Rightarrow> 'a nullish option" where
  "z_nullish_field obj k s =
     (case map_of obj k of
        None \<Rightarrow> Some Undefined
      | Some JNull \<Rightarrow> Some Null
      | Some j \<Rightarrow> map_option Value (s j))"

record Collection =
  c_id :: string
  c_name :: string
  c_metadata :: "(string \<times> json) list nullish"
  c_tenant :: "string option"
  c_database :: "string option"

definition z_optional_field ::
  "(string \<times> json) list \<Rightarrow> string \<Rightarrow> 'a schema \<Rightarrow> 'a option option" where
  "z_optional_field obj k s =
     (case map_of obj k of None \<Rightarrow> Some None | Some j \<Rightarrow> map_option Some (s j))"

fun CollectionSchema :: "Collection schema" where
  "CollectionSchema (JObj obj) =
     Option.bind (z_field obj ''id'' z_string) (\<lambda>i.
     Option.bind (z_field obj ''name'' z_string) (\<lambda>n.
     Option.bind (z_nullish_field obj ''metadata'' z_unknown_record) (\<lambda>m.
     Option.bind (z_optional_field obj ''tenant'' z_string) (\<lambda>t.
     Option.bind (z_optional_field obj ''database'' z_string) (\<lambda>d.
       Some \<lparr>c_id = i, c_name = n, c_metadata = m, c_tenant = t, c_database = d\<rparr>)))))"
| "CollectionSchema _ = None"

definition CollectionListSchema :: "Collection list schema" where
  "CollectionListSchema = z_array CollectionSchema"



section \<open>Protocol client (src/lib/chromaClient.ts)\<close>

subsection \<open>Errors and strings\<close>

text \<open>
  \<open>ChromaError\<close> is the only error class of the client: a message, an optional HTTP status
  and the flag \<open>isCors\<close> (its \<open>name\<close> is always "ChromaError").
\<close>

record ChromaError =
  message :: string
  status :: "nat option"
  isCors :: bool

text \<open>A JavaScript error thrown by the platform (\<open>fetch\<close>, \<open>res.json()\<close>).\<close>

record JsError =
  err_name :: string
  err_message :: string

text \<open>\<open>s.includes(t)\<close> and the decimal rendering of a number in a template literal.\<close>

fun str_includes :: "string \<Rightarrow> string \<Rightarrow> bool" where
  "str_includes [] t = (t = [])"
| "str_includes (c # s) t = (prefix t (c # s) \<or> str_includes s t)"

fun show_nat :: "nat \<Rightarrow> string" where
  "show_nat n =
     (if n < 10 then [''0123456789'' ! n]
      else show_nat (n div 10) @ [''0123456789'' ! (n mod 10)])"

declare show_nat.simps [simp del]

subsection \<open>API version and URL resolution\<close>

datatype ApiVersion = V2 | V1

definition version_string :: "ApiVersion \<Rightarrow> string" where
  "version_string v = (case v of V2 \<Rightarrow> ''v2'' | V1 \<Rightarrow> ''v1'')"

record Capabilities =
  cap_heartbeat :: bool
  cap_version :: bool
  cap_listCollections :: bool
  cap_getCollection :: bool
  cap_countCollection :: bool
  cap_getItems :: bool
  cap_query :: bool
  cap_apiVersion :: string

text \<open>
  The module-level variables \<open>detectedApiVersion\<close> and \<open>cachedCapabilities\<close> (both initially
  \<open>null\<close>), together with the localStorage the client reads.
\<close>

record Client =
  storage :: Storage
  detectedApiVersion :: "ApiVersion option"
  cachedCapabilities :: "Capabilities option"

definition DEFAULT_TENANT :: string where "DEFAULT_TENANT = ''default_tenant''"
definition DEFAULT_DATABASE :: string where "DEFAULT_DATABASE = ''default_database''"

definition apiPrefix :: "Client \<Rightarrow> string" where
  "apiPrefix cl =
     (let v = (case detectedApiVersion cl of Some v \<Rightarrow> v | None \<Rightarrow> V2)
      in if v = V2 then ''/api/v2/tenants/'' @ DEFAULT_TENANT @ ''/databases/'' @ DEFAULT_DATABASE
         else ''/api/v1'')"

definition apiBase :: "Client \<Rightarrow> string" where
  "apiBase cl =
     (let v = (case detectedApiVersion cl of Some v \<Rightarrow> v | None \<Rightarrow> V2)
      in ''/api/'' @ version_string v)"

definition resolveUrl :: "Storage \<Rightarrow> string \<Rightarrow> string" where
  "resolveUrl st path =
     (let mode = getConnectionMode st;
          base = getBaseUrl st;
          cleanPath = (if prefix ''/'' path then path else ''/'' @ path)
      in if mode = Proxy then ''/api'' @ cleanPath else base @ cleanPath)"

subsection \<open>The network\<close>

text \<open>
  \<open>fetch\<close> is a parameter: given a request and the state of the world (the server, the
  network, the timers) it yields an outcome and the next state. The promise either rejects
  with an error (an \<open>AbortError\<close> when the abort signal fired) or resolves to a response,
  whose body is read by \<open>res.text()\<close> or \<open>res.json()\<close>, each of which may reject in turn.
  A request body is kept as the JSON value that \<open>JSON.stringify\<close> serialises.
\<close>

record Request =
  url :: string
  http_method :: "string option"
  headers :: "(string \<times> string) list"
  body :: "json option"

record Response =
  res_ok :: bool
  res_status :: nat
  res_statusText :: string
  res_text :: "JsError + string"
  res_json :: "JsError + json"

datatype FetchOutcome = Rejected JsError | Resolved Response

type_synonym 'w fetch = "Request \<Rightarrow> 'w \<Rightarrow> FetchOutcome \<times> 'w"

text \<open>Object spread \<open>{...a, ...b}\<close> on entry lists: a later entry overrides an earlier one.\<close>

definition spread :: "(string \<times> string) list \<Rightarrow> (string \<times> string) list \<Rightarrow> (string \<times> string) list" where
  "spread a b = foldl (\<lambda>acc (k, v). AList.update k v acc) a b"

subsection \<open>Core fetch wrapper\<close>

definition DEFAULT_TIMEOUT :: nat where "DEFAULT_TIMEOUT = 15000"

record RequestInit =
  opt_method :: "string option"
  opt_headers :: "(string \<times> string) list"
  opt_body :: "json option"
  opt_timeout :: "nat option"

definition no_opts :: RequestInit where
  "no_opts = \<lparr>opt_method = None, opt_headers = [], opt_body = None, opt_timeout = None\<rparr>"

definition CORS_MESSAGE :: string where
  "CORS_MESSAGE =
     ''Network error '' @ [CHR 0xE2, CHR 0x80, CHR 0x93] @
     '' this is likely a CORS issue. '' @
     ''Make sure the Chroma server has CORS enabled or use the Vite dev proxy.''"

text \<open>
  The \<open>catch\<close> block of \<open>chromaFetch\<close> for an error that is neither a \<open>ChromaError\<close> nor a
  \<open>ZodError\<close>.
\<close>

definition probable_cors :: "JsError \<Rightarrow> bool" where
  "probable_cors e =
     (err_name e = ''TypeError'' \<and>
        (str_includes (err_message e) ''Failed to fetch'' \<or>
         str_includes (err_message e) ''NetworkError'' \<or>
         str_includes (err_message e) ''Load failed''))"

definition catch_other :: "nat \<Rightarrow> JsError \<Rightarrow> ChromaError" where
  "catch_other timeout e =
     (if probable_cors e
      then \<lparr>message = CORS_MESSAGE, status = None, isCors = True\<rparr>
      else if err_name e = ''AbortError''
      then \<lparr>message = ''Request timed out after '' @ show_nat timeout @ ''ms'',
            status = None, isCors = False\<rparr>
      else \<lparr>message = err_message e, status = None, isCors = False\<rparr>)"

text \<open>The request that \<open>chromaFetch\<close> hands to \<open>fetch\<close>.\<close>

definition chroma_request :: "Client \<Rightarrow> string \<Rightarrow> RequestInit \<Rightarrow> Request" where
  "chroma_request cl target opts =
     \<lparr>url = target, http_method = opt_method opts,
      headers = spread (spread [(''Content-Type'', ''application/json'')]
                          (getAuthHeaders (storage cl))) (opt_headers opts),
      body = opt_body opts\<rparr>"

text \<open>
  The schema argument is the \<open>parse\<close> of a zod schema; \<open>Inl\<close> carries the message of the
  \<open>ZodError\<close> it throws.
\<close>

definition chromaFetch ::
  "'w fetch \<Rightarrow> Client \<Rightarrow> string \<Rightarrow> (json \<Rightarrow> string + 'a) \<Rightarrow> RequestInit \<Rightarrow> 'w
     \<Rightarrow> (ChromaError + 'a) \<times> 'w" where
  "chromaFetch fetch cl path schema opts w =
     (let timeout = (case opt_timeout opts of Some t \<Rightarrow> t | None \<Rightarrow> DEFAULT_TIMEOUT);
          url = resolveUrl (storage cl) path
      in case fetch (chroma_request cl url opts) w of
           (Rejected e, w') \<Rightarrow> (Inl (catch_other timeout e), w')
         | (Resolved res, w') \<Rightarrow>
             if \<not> res_ok res then
               let text = (case res_text res of Inl _ \<Rightarrow> '''' | Inr t \<Rightarrow> t)
               in (Inl \<lparr>message = ''Chroma HTTP '' @ show_nat (res_status res) @ '': '' @
                                   (if text \<noteq> [] then text else res_statusText res),
                        status = Some (res_status res), isCors = False\<rparr>, w')
             else
               (case res_json res of
                  Inl e \<Rightarrow> (Inl (catch_other timeout e), w')
                | Inr j \<Rightarrow>
                    (case schema j of
                       Inl zmsg \<Rightarrow>
                         (Inl \<lparr>message = ''Invalid response shape: '' @ zmsg,
                               status = None, isCors = False\<rparr>, w')
                     | Inr v \<Rightarrow> (Inr v, w'))))"

text \<open>
  The message of a \<open>ZodError\<close> is produced by the zod library; here it is the name of the
  schema that rejected the value.
\<close>

definition zod_parse :: "string \<Rightarrow> 'a schema \<Rightarrow> json \<Rightarrow> string + 'a" where
  "zod_parse nm s j = (case s j of None \<Rightarrow> Inl nm | Some v \<Rightarrow> Inr v)"


subsection \<open>Capability detection\<close>

definition probe_request :: "Client \<Rightarrow> string \<Rightarrow> Request" where
  "probe_request cl target =
     \<lparr>url = target, http_method = Some ''GET'', headers = getAuthHeaders (storage cl), body = None\<rparr>"

definition probeUrl :: "'w fetch \<Rightarrow> Client \<Rightarrow> string \<Rightarrow> 'w \<Rightarrow> bool \<times> 'w" where
  "probeUrl fetch cl path w =
     (let url = resolveUrl (storage cl) path
      in case fetch (probe_request cl url) w of
           (Rejected e, w') \<Rightarrow> (False, w')
         | (Resolved res, w') \<Rightarrow> (res_ok res, w'))"

definition listCollections :: "'w fetch \<Rightarrow> Client \<Rightarrow> 'w \<Rightarrow> (ChromaError + Collection list) \<times> 'w" where
  "listCollections fetch cl w =
     chromaFetch fetch cl (apiPrefix cl @ ''/collections'')
       (zod_parse ''CollectionListSchema'' CollectionListSchema) no_opts w"

definition detectCapabilities :: "'w fetch \<Rightarrow> Client \<Rightarrow> 'w \<Rightarrow> Capabilities \<times> Client \<times> 'w" where
  "detectCapabilities fetch cl0 w0 =
     (let (v2ok, w1) = probeUrl fetch cl0 ''/api/v2/heartbeat'' w0;
          (cl, w2) =
            (if v2ok then (cl0\<lparr>detectedApiVersion := Some V2\<rparr>, w1)
             else
               let (v1ok, w) = probeUrl fetch cl0 ''/api/v1/heartbeat'' w1
               in (cl0\<lparr>detectedApiVersion := Some (if v1ok then V1 else V2)\<rparr>, w));
          (hb, w3) = probeUrl fetch cl (apiBase cl @ ''/heartbeat'') w2;
          (vs, w4) = probeUrl fetch cl (apiBase cl @ ''/version'') w3;
          (lc, w5) = probeUrl fetch cl (apiPrefix cl @ ''/collections'') w4;
          caps = \<lparr>cap_heartbeat = hb, cap_version = vs, cap_listCollections = lc,
                  cap_getCollection = False, cap_countCollection = False,
                  cap_getItems = False, cap_query = False,
                  cap_apiVersion =
                    (case detectedApiVersion cl of Some v \<Rightarrow> version_string v | None \<Rightarrow> [])\<rparr>;
          (caps', w8) =
            (if cap_listCollections caps then
               (case listCollections fetch cl w5 of
                  (Inl e, w6) \<Rightarrow> (caps, w6)
                | (Inr collections, w6) \<Rightarrow>
                    (case collections of
                       first # _ \<Rightarrow>
                         let (gc, w7) =
                               probeUrl fetch cl (apiPrefix cl @ ''/collections/'' @ c_id first) w6;
                             (cc, w8) =
                               probeUrl fetch cl
                                 (apiPrefix cl @ ''/collections/'' @ c_id first @ ''/count'') w7
                         in (caps\<lparr>cap_getCollection := gc, cap_countCollection := cc,
                                  cap_getItems := True, cap_query := True\<rparr>, w8)
                     | [] \<Rightarrow>
                         (caps\<lparr>cap_getCollection := True, cap_countCollection := True,
                               cap_getItems := True, cap_query := True\<rparr>, w6)))
             else (caps, w5))
      in (caps', cl\<lparr>cachedCapabilities := Some caps'\<rparr>, w8))"

subsection \<open>Reading records\<close>



subsection \<open>Backup helper\<close>









subsection \<open>Observing the requests\<close>

text \<open>
  A network that also records every request it is given, in order. Running the client on
  \<open>logged fetch\<close> shows which requests it issues.
\<close>

definition logged :: "'w fetch \<Rightarrow> ('w \<times> Request list) fetch" where
  "logged fetch req wl =
     (case wl of (w, sent) \<Rightarrow> (case fetch req w of (out, w') \<Rightarrow> (out, (w', sent @ [req]))))"


definition json_response :: "json \<Rightarrow> Response" where
  "json_response j =
     \<lparr>res_ok = True, res_status = 200, res_statusText = ''OK'', res_text = Inr [],
      res_json = Inr j\<rparr>"











section \<open>Embedding analysis (src/components/charts)\<close>

text \<open>
  JavaScript numbers are modelled as real numbers and the functions of this section are
  read in exact arithmetic; overflow and NaN are not represented. The rounding of the code
  is added for cosine similarity in the subsection on double arithmetic, where a property
  depends on it. Where the source reads an array out of range (\<open>b[i]\<close> beyond a shorter
  vector would be \<open>undefined\<close>), the theorems assume vectors of equal dimension, as the
  component's callers provide.
\<close>

subsection \<open>Cosine similarity (SimilarityHeatmap.tsx)\<close>

definition cosineSimilarity :: "real list \<Rightarrow> real list \<Rightarrow> real" where
  "cosineSimilarity a b =
     (let (dot, magA, magB) =
            foldl (\<lambda>(dot, magA, magB) i.
                     (dot + a ! i * b ! i, magA + a ! i * a ! i, magB + b ! i * b ! i))
              (0, 0, 0) [0..<length a];
          denom = sqrt magA * sqrt magB
      in if denom = 0 then 0 else dot / denom)"






subsection \<open>PCA projection (EmbeddingScatter.tsx)\<close>

text \<open>
  \<open>Math.random\<close> is a parameter: \<open>rand k\<close> is the value of the \<open>k\<close>-th call. A point
  \<open>{x, y}\<close> is a pair.
\<close>

type_synonym point = "real \<times> real"

definition dot_at :: "real list \<Rightarrow> real list \<Rightarrow> real" where
  "dot_at vec component = foldl (\<lambda>s j. s + vec ! j * component ! j) 0 [0..<length vec]"

definition mean_vector :: "real list list \<Rightarrow> nat \<Rightarrow> real list" where
  "mean_vector embs dimension =
     (let summed = foldl (\<lambda>mean vec. map (\<lambda>j. mean ! j + vec ! j) [0..<dimension]) (replicate dimension 0) embs
      in map (\<lambda>j. summed ! j / real (length embs)) [0..<dimension])"

definition center :: "real list \<Rightarrow> real list \<Rightarrow> real list" where
  "center mean vec = map (\<lambda>j. vec ! j - mean ! j) [0..<length vec]"

definition projectOnto :: "real list list \<Rightarrow> real list \<Rightarrow> real list" where
  "projectOnto centered component = map (\<lambda>vec. dot_at vec component) centered"

definition power_step :: "nat \<Rightarrow> real list list \<Rightarrow> real list \<Rightarrow> real list" where
  "power_step dimension deflected vec =
     (let newVec =
            foldl (\<lambda>newVec row.
                     let dot = dot_at row vec
                     in map (\<lambda>j. newVec ! j + dot * row ! j) [0..<dimension])
              (replicate dimension 0) deflected;
          s = sqrt (foldl (\<lambda>s v. s + v * v) 0 newVec);
          norm = (if s = 0 then 1 else s)
      in map (\<lambda>v. v / norm) newVec)"

definition powerIteration :: "(nat \<Rightarrow> real) \<Rightarrow> nat \<Rightarrow> nat \<Rightarrow> real list list \<Rightarrow> real list" where
  "powerIteration rand pos dimension deflected =
     ((power_step dimension deflected) ^^ 100) (map (\<lambda>j. rand (pos + j) - 0.5) [0..<dimension])"

definition pcaProject :: "(nat \<Rightarrow> real) \<Rightarrow> real list list \<Rightarrow> point list" where
  "pcaProject rand embs =
     (let n = length embs
      in if n = 0 then []
         else
           let dimension = length (embs ! 0);
               mean = mean_vector embs dimension;
               centered = map (center mean) embs;
               pc1 = powerIteration rand 0 dimension centered;
               proj1 = projectOnto centered pc1;
               deflected = map (\<lambda>i. map (\<lambda>j. centered ! i ! j - proj1 ! i * pc1 ! j)
                                        [0..<length (centered ! i)]) [0..<n];
               pc2 = powerIteration rand dimension dimension deflected;
               proj2 = projectOnto centered pc2
           in map (\<lambda>i. (proj1 ! i, proj2 ! i)) [0..<length proj1])"

text \<open>
  The centroid of the input, and the two directions that the two power iterations of
  \<open>pcaProject\<close> return (on an input that is not empty).
\<close>

definition pca_mean :: "real list list \<Rightarrow> real list" where
  "pca_mean embs = mean_vector embs (length (embs ! 0))"

definition pca_pc1 :: "(nat \<Rightarrow> real) \<Rightarrow> real list list \<Rightarrow> real list" where
  "pca_pc1 rand embs =
     powerIteration rand 0 (length (embs ! 0)) (map (center (pca_mean embs)) embs)"

definition pca_pc2 :: "(nat \<Rightarrow> real) \<Rightarrow> real list list \<Rightarrow> real list" where
  "pca_pc2 rand embs =
     (let dimension = length (embs ! 0);
          centered = map (center (pca_mean embs)) embs;
          pc1 = pca_pc1 rand embs;
          proj1 = projectOnto centered pc1;
          deflected = map (\<lambda>i. map (\<lambda>j. centered ! i ! j - proj1 ! i * pc1 ! j)
                                   [0..<length (centered ! i)]) [0..<length embs]
      in powerIteration rand dimension dimension deflected)"

definition equal_dimension :: "real list list \<Rightarrow> bool" where
  "equal_dimension embs = (\<forall>v \<in> set embs. length v = length (embs ! 0))"

subsection \<open>K-means clustering (EmbeddingScatter.tsx)\<close>

definition dist2 :: "point \<Rightarrow> point \<Rightarrow> real" where
  "dist2 p cen = (fst p - fst cen)\<^sup>2 + (snd p - snd cen)\<^sup>2"

text \<open>
  The running minimum \<open>minD\<close> starts at \<open>Infinity\<close>, which is \<open>None\<close> here:
  \<open>less_inf d minD\<close> is the test \<open>d < minD\<close>.
\<close>

definition less_inf :: "real \<Rightarrow> real option \<Rightarrow> bool" where
  "less_inf d minD = (case minD of None \<Rightarrow> True | Some m \<Rightarrow> d < m)"

definition nearest_dist :: "point list \<Rightarrow> point \<Rightarrow> real option" where
  "nearest_dist centroids p =
     foldl (\<lambda>minD cen. let d = dist2 p cen in if less_inf d minD then Some d else minD)
       None centroids"

text \<open>\<open>Math.floor(Math.random() * n)\<close>, with the random value of call \<open>pos\<close>.\<close>

definition random_index :: "(nat \<Rightarrow> real) \<Rightarrow> nat \<Rightarrow> nat \<Rightarrow> nat" where
  "random_index rand pos n = nat \<lfloor>rand pos * real n\<rfloor>"

text \<open>
  The sampling loop \<open>for (i = 0; i < n; i++) { r -= dists[i]; if (r <= 0) { ...; break } }\<close>:
  the index at which it breaks, if it does.
\<close>

fun pick :: "real \<Rightarrow> real list \<Rightarrow> nat \<Rightarrow> nat option" where
  "pick r [] i = None"
| "pick r (d # ds) i = (let r' = r - d in if r' \<le> 0 then Some i else pick r' ds (Suc i))"

text \<open>
  One round of the seeding loop \<open>for (c = 1; c < k; c++)\<close>, on the centroids chosen so far
  and the number of random values consumed. When the sampling loop pushed nothing
  (\<open>centroids.length === c\<close>) the fallback draws a uniform index. \<open>centroids\<close> is never
  empty here, so \<open>nearest_dist\<close> is never \<open>Infinity\<close>.
\<close>

definition seed_step :: "(nat \<Rightarrow> real) \<Rightarrow> point list \<Rightarrow> point list \<times> nat \<Rightarrow> point list \<times> nat" where
  "seed_step rand points st =
     (case st of (centroids, pos) \<Rightarrow>
        let dists = map (\<lambda>p. case nearest_dist centroids p of Some d \<Rightarrow> d | None \<Rightarrow> 0) points;
            sum_d = foldl (+) 0 dists;
            r = rand pos * sum_d
        in case pick r dists 0 of
             Some i \<Rightarrow> (centroids @ [points ! i], Suc pos)
           | None \<Rightarrow>
               (centroids @ [points ! random_index rand (Suc pos) (length points)],
                Suc (Suc pos)))"

definition seedCentroids :: "(nat \<Rightarrow> real) \<Rightarrow> point list \<Rightarrow> nat \<Rightarrow> point list" where
  "seedCentroids rand points k =
     fst (foldl (\<lambda>st c. seed_step rand points st)
            ([points ! random_index rand 0 (length points)], 1) [1..<k])"

text \<open>The assignment of a point: the first centroid at the least squared distance.\<close>

definition assign :: "point list \<Rightarrow> nat \<Rightarrow> point \<Rightarrow> nat" where
  "assign centroids k p =
     snd (foldl (\<lambda>(minD, best) c.
                   let d = dist2 p (centroids ! c)
                   in if less_inf d minD then (Some d, c) else (minD, best))
            (None, 0) [0..<k])"

definition update_centroids ::
  "point list \<Rightarrow> nat list \<Rightarrow> nat \<Rightarrow> point list \<Rightarrow> point list \<times> bool" where
  "update_centroids points newLabels k centroids =
     foldl (\<lambda>(centroids, changed) c.
              let (sumX, sumY, cnt) =
                    foldl (\<lambda>(sumX, sumY, cnt) i.
                             if newLabels ! i = c
                             then (sumX + fst (points ! i), sumY + snd (points ! i), Suc cnt)
                             else (sumX, sumY, cnt))
                      (0, 0, 0) [0..<length points]
              in if cnt > 0 then
                   let nx = sumX / real cnt; ny = sumY / real cnt
                   in (centroids[c := (nx, ny)],
                       changed \<or> nx \<noteq> fst (centroids ! c) \<or> ny \<noteq> snd (centroids ! c))
                 else (centroids, changed))
       (centroids, False) [0..<k]"

text \<open>The loop \<open>for (iter = 0; iter < maxIter; iter++)\<close>, on the iterations that remain.\<close>

fun kMeans_iterate ::
  "point list \<Rightarrow> nat \<Rightarrow> nat \<Rightarrow> nat list \<Rightarrow> point list \<Rightarrow> nat list \<times> point list" where
  "kMeans_iterate points k 0 labels centroids = (labels, centroids)"
| "kMeans_iterate points k (Suc remaining) labels centroids =
     (let newLabels = map (assign centroids k) points;
          (centroids', changed) = update_centroids points newLabels k centroids
      in if \<not> changed then (newLabels, centroids')
         else kMeans_iterate points k remaining newLabels centroids')"

definition kMeans ::
  "(nat \<Rightarrow> real) \<Rightarrow> point list \<Rightarrow> nat \<Rightarrow> nat \<Rightarrow> nat list \<times> point list" where
  "kMeans rand points k maxIter =
     (let n = length points
      in if n = 0 then ([], [])
         else kMeans_iterate points k maxIter (replicate n 0) (seedCentroids rand points k))"

text \<open>\<open>Math.random\<close> returns values in the interval from 0 (included) to 1 (excluded).\<close>

definition rand_ok :: "(nat \<Rightarrow> real) \<Rightarrow> bool" where
  "rand_ok rand = (\<forall>i. 0 \<le> rand i \<and> rand i < 1)"

subsection \<open>Notions for the similarity matrix\<close>






subsection \<open>Double arithmetic\<close>

text \<open>
  A JavaScript number is an IEEE 754 binary64 value, and \<open>+\<close>, \<open>*\<close>, \<open>/\<close> and \<open>Math.sqrt\<close>
  return the exact result rounded to the nearest such value, ties to the even significand.
  \<open>fl\<close> is that rounding on the reals, for a significand of 53 bits. The range of the exponent is
  not modelled: \<open>fl\<close> is the rounding of the code for magnitudes between \<open>2\<^sup>-\<^sup>1\<^sup>0\<^sup>2\<^sup>2\<close>
  and \<open>2\<^sup>1\<^sup>0\<^sup>2\<^sup>4\<close>, where no overflow or underflow occurs.
\<close>

definition round_even :: "real \<Rightarrow> int" where
  "round_even x =
     (let f = \<lfloor>x\<rfloor>; r = x - of_int f
      in if r < 1 / 2 then f else if 1 / 2 < r then f + 1 else if even f then f else f + 1)"

definition fl :: "real \<Rightarrow> real" where
  "fl x =
     (if x = 0 then 0
      else let e = \<lfloor>log 2 \<bar>x\<bar>\<rfloor> - 52
           in of_int (round_even (x / 2 powi e)) * 2 powi e)"


section \<open>Test fixtures\<close>

text \<open>
  A client with nothing stored (direct mode, base URL \<open>http://localhost:8000\<close>, no
  authentication) and a few concrete networks, used to evaluate the model.
\<close>

definition test_client :: Client where
  "test_client =
     \<lparr>storage = \<lparr>BASE_URL = None, CONNECTION_MODE = None, AUTH_TYPE = None,
                   AUTH_CREDENTIALS = None, envDefaultUrl = None\<rparr>,
      detectedApiVersion = None, cachedCapabilities = None\<rparr>"

definition failing_fetch :: "JsError \<Rightarrow> unit fetch" where
  "failing_fetch e req w = (Rejected e, w)"



definition empty_server :: "unit fetch" where
  "empty_server req w = (Resolved (json_response (JArr [])), w)"

section \<open>Notions used in the statements\<close>


text \<open>The paths that capability detection probes when the server has no collection.\<close>

definition collections_urls :: "Storage \<Rightarrow> string set" where
  "collections_urls st =
     {resolveUrl st ''/api/v1/collections'',
      resolveUrl st ''/api/v2/tenants/default_tenant/databases/default_database/collections''}"

definition probe_paths :: "string list" where
  "probe_paths =
     [''/api/v2/heartbeat'', ''/api/v1/heartbeat'', ''/api/v2/version'', ''/api/v1/version'',
      ''/api/v1/collections'',
      ''/api/v2/tenants/default_tenant/databases/default_database/collections'']"

section \<open>Further test fixtures\<close>



section \<open>Properties\<close>

subsection \<open>Authentication headers\<close>

lemma btoa_test: "btoa ''user:pass'' = ''dXNlcjpwYXNz'' \<and> btoa ''a:'' = ''YTo=''"
  by (simp add: b64_def)



subsection \<open>Error classification\<close>

lemma str_includes_CORS: "str_includes CORS_MESSAGE ''CORS enabled''"
  by (simp add: CORS_MESSAGE_def)

text \<open>
  Claim C5. For every path, schema and options: when the underlying \<open>fetch\<close> rejects with
  a \<open>TypeError\<close> whose message is "Failed to fetch", \<open>chromaFetch\<close> raises the error with
  \<open>isCors = true\<close>, no status, and the message that carries the remediation guidance.
\<close>

theorem chromaFetch_failed_to_fetch_isCors:
  assumes "\<And>req. fetch req w = (Rejected \<lparr>err_name = ''TypeError'', err_message = ''Failed to fetch''\<rparr>, w')"
  shows "chromaFetch fetch cl path schema opts w =
           (Inl \<lparr>message = CORS_MESSAGE, status = None, isCors = True\<rparr>, w')"
  by (simp add: chromaFetch_def assms catch_other_def probable_cors_def Let_def)

theorem chromaFetch_failed_to_fetch_isCors_witness:
  "chromaFetch (failing_fetch \<lparr>err_name = ''TypeError'', err_message = ''Failed to fetch''\<rparr>)
     test_client ''/api/v2/heartbeat'' (zod_parse ''CountSchema'' z_number) no_opts ()
   = (Inl \<lparr>message = CORS_MESSAGE, status = None, isCors = True\<rparr>, ())"
  using chromaFetch_failed_to_fetch_isCors
    [of "failing_fetch \<lparr>err_name = ''TypeError'', err_message = ''Failed to fetch''\<rparr>" "()" "()"]
  by (simp add: failing_fetch_def)



subsection \<open>Version detection and capabilities\<close>



lemma probeUrl_logged:
  "probeUrl (logged f) cl p (w, l) =
     (case probeUrl f cl p w of
        (b, w') \<Rightarrow> (b, (w', l @ [probe_request cl (resolveUrl (storage cl) p)])))"
  by (simp add: probeUrl_def logged_def Let_def split: prod.splits FetchOutcome.splits)

lemma chromaFetch_logged:
  "chromaFetch (logged f) cl p s opts (w, l) =
     (case chromaFetch f cl p s opts w of
        (r, w') \<Rightarrow> (r, (w', l @ [chroma_request cl (resolveUrl (storage cl) p) opts])))"
  by (simp add: chromaFetch_def logged_def Let_def
      split: prod.splits FetchOutcome.splits sum.splits)





lemma probeUrl_ok:
  assumes "fetch (probe_request cl (resolveUrl (storage cl) p)) w = (Resolved res, w')" "res_ok res"
  shows "probeUrl fetch cl p w = (True, w')"
  using assms by (simp add: probeUrl_def Let_def)

lemma listCollections_empty:
  assumes "fetch (chroma_request cl (resolveUrl (storage cl) (apiPrefix cl @ ''/collections'')) no_opts) w
             = (Resolved res, w')" "res_ok res" "res_json res = Inr (JArr [])"
  shows "listCollections fetch cl w = (Inr [], w')"
  using assms
  by (simp add: listCollections_def chromaFetch_def Let_def zod_parse_def CollectionListSchema_def)

lemma probeUrl_logged_sent:
  "probeUrl (logged f) cl p (w, l) = (b, (w', l')) \<Longrightarrow>
     l' = l @ [probe_request cl (resolveUrl (storage cl) p)]"
  by (auto simp: probeUrl_logged split: prod.splits)

lemma apiBase_paths:
  "apiBase (cl\<lparr>detectedApiVersion := Some v\<rparr>) @ ''/heartbeat'' \<in> set probe_paths"
  "apiBase (cl\<lparr>detectedApiVersion := Some v\<rparr>) @ ''/version'' \<in> set probe_paths"
  "apiPrefix (cl\<lparr>detectedApiVersion := Some v\<rparr>) @ ''/collections'' \<in> set probe_paths"
  by (cases v; simp add: apiBase_def apiPrefix_def version_string_def probe_paths_def
        DEFAULT_TENANT_def DEFAULT_DATABASE_def)+

text \<open>
  Claim C9. When the server answers the list-collections URL successfully with an empty
  array, \<open>detectCapabilities\<close> reports \<open>getItems\<close>, \<open>query\<close>, \<open>getCollection\<close> and
  \<open>countCollection\<close> as true and caches the snapshot, although every request it sent went to
  a heartbeat, version or list-collections path: no item endpoint was invoked.
\<close>

theorem detectCapabilities_no_collections:
  assumes srv: "\<And>req w. url req \<in> collections_urls (storage cl0) \<Longrightarrow>
                  \<exists>res w'. fetch req w = (Resolved res, w') \<and> res_ok res \<and> res_json res = Inr (JArr [])"
      and run: "detectCapabilities (logged fetch) cl0 (w0, []) = (caps, cl, (w, sent))"
  shows "cap_listCollections caps \<and> cap_getCollection caps \<and> cap_countCollection caps
       \<and> cap_getItems caps \<and> cap_query caps \<and> cachedCapabilities cl = Some caps
       \<and> (\<forall>r \<in> set sent. \<exists>p \<in> set probe_paths. url r = resolveUrl (storage cl0) p)"
proof -
  obtain v2ok w1 l1 where p2: "probeUrl (logged fetch) cl0 ''/api/v2/heartbeat'' (w0, []) = (v2ok, (w1, l1))"
    by (metis prod.collapse)
  obtain v1ok w2' l2' where p1: "probeUrl (logged fetch) cl0 ''/api/v1/heartbeat'' (w1, l1) = (v1ok, (w2', l2'))"
    by (metis prod.collapse)
  define v where "v = (if v2ok then V2 else if v1ok then V1 else V2)"
  define c where "c = cl0\<lparr>detectedApiVersion := Some v\<rparr>"
  define w2 where "w2 = (if v2ok then w1 else w2')"
  define l2 where "l2 = (if v2ok then l1 else l2')"
  have st: "storage c = storage cl0" by (simp add: c_def)
  have dv: "detectedApiVersion c = Some v" by (simp add: c_def)
  obtain hb w3 l3 where p3: "probeUrl (logged fetch) c (apiBase c @ ''/heartbeat'') (w2, l2) = (hb, (w3, l3))"
    by (metis prod.collapse)
  obtain vs w4 l4 where p4: "probeUrl (logged fetch) c (apiBase c @ ''/version'') (w3, l3) = (vs, (w4, l4))"
    by (metis prod.collapse)
  have cu: "resolveUrl (storage cl0) (apiPrefix c @ ''/collections'') \<in> collections_urls (storage cl0)"
    by (cases v; simp add: c_def apiPrefix_def collections_urls_def DEFAULT_TENANT_def DEFAULT_DATABASE_def)
  obtain r5 w5 where f5: "fetch (probe_request c (resolveUrl (storage c) (apiPrefix c @ ''/collections''))) w4
      = (Resolved r5, w5)" "res_ok r5"
    using srv [of "probe_request c (resolveUrl (storage c) (apiPrefix c @ ''/collections''))" w4] cu st
    by (auto simp: probe_request_def)
  obtain r6 w6 where f6: "fetch (chroma_request c (resolveUrl (storage c) (apiPrefix c @ ''/collections'')) no_opts) w5
      = (Resolved r6, w6)" "res_ok r6" "res_json r6 = Inr (JArr [])"
    using srv [of "chroma_request c (resolveUrl (storage c) (apiPrefix c @ ''/collections'')) no_opts" w5] cu st
    by (auto simp: chroma_request_def)
  have p5: "probeUrl (logged fetch) c (apiPrefix c @ ''/collections'') (w4, l4)
      = (True, (w5, l4 @ [probe_request c (resolveUrl (storage c) (apiPrefix c @ ''/collections''))]))"
    using probeUrl_ok [where fetch = fetch, OF f5] by (simp add: probeUrl_logged)
  have p6: "listCollections (logged fetch) c (w5, l5)
      = (Inr [], (w6, l5 @ [chroma_request c (resolveUrl (storage c) (apiPrefix c @ ''/collections'')) no_opts]))"
    for l5
    using listCollections_empty [where fetch = fetch, OF f6]
    by (simp add: listCollections_def chromaFetch_logged)
  have res: "detectCapabilities (logged fetch) cl0 (w0, []) =
     (\<lparr>cap_heartbeat = hb, cap_version = vs, cap_listCollections = True,
       cap_getCollection = True, cap_countCollection = True, cap_getItems = True,
       cap_query = True, cap_apiVersion = version_string v\<rparr>,
      c\<lparr>cachedCapabilities := Some \<lparr>cap_heartbeat = hb, cap_version = vs, cap_listCollections = True,
       cap_getCollection = True, cap_countCollection = True, cap_getItems = True,
       cap_query = True, cap_apiVersion = version_string v\<rparr>\<rparr>,
      (w6, l4 @ [probe_request c (resolveUrl (storage c) (apiPrefix c @ ''/collections'')),
                 chroma_request c (resolveUrl (storage c) (apiPrefix c @ ''/collections'')) no_opts]))"
  proof (cases v2ok)
    case True
    then have c: "cl0\<lparr>detectedApiVersion := Some V2\<rparr> = c" "w2 = w1" "l2 = l1" "v = V2"
      by (simp_all add: c_def v_def w2_def l2_def)
    show ?thesis
      unfolding detectCapabilities_def p2 Let_def prod.case
      using True p3 p4 by (simp add: c p5 p6 dv)
  next
    case False
    then have c: "cl0\<lparr>detectedApiVersion := Some (if v1ok then V1 else V2)\<rparr> = c"
        "w2 = w2'" "l2 = l2'" "v = (if v1ok then V1 else V2)"
      by (simp_all add: c_def v_def w2_def l2_def)
    show ?thesis
      unfolding detectCapabilities_def p2 Let_def prod.case
      using False p3 p4 by (simp add: p1 c p5 p6 dv)
  qed
  have l1: "l1 = [probe_request cl0 (resolveUrl (storage cl0) ''/api/v2/heartbeat'')]"
    using probeUrl_logged_sent [OF p2] by simp
  have l2': "l2' = l1 @ [probe_request cl0 (resolveUrl (storage cl0) ''/api/v1/heartbeat'')]"
    using probeUrl_logged_sent [OF p1] by simp
  have l3: "l3 = l2 @ [probe_request c (resolveUrl (storage c) (apiBase c @ ''/heartbeat''))]"
    using probeUrl_logged_sent [OF p3] by simp
  have l4: "l4 = l3 @ [probe_request c (resolveUrl (storage c) (apiBase c @ ''/version''))]"
    using probeUrl_logged_sent [OF p4] by simp
  have paths: "\<forall>r \<in> set (l4 @ [probe_request c (resolveUrl (storage c) (apiPrefix c @ ''/collections'')),
                 chroma_request c (resolveUrl (storage c) (apiPrefix c @ ''/collections'')) no_opts]).
        \<exists>p \<in> set probe_paths. url r = resolveUrl (storage cl0) p"
    using apiBase_paths [where cl = cl0 and v = v]
    by (auto simp: l4 l3 l2_def l2' l1 st probe_request_def chroma_request_def c_def [symmetric]
        probe_paths_def)
  from run res paths show ?thesis by auto
qed

theorem detectCapabilities_no_collections_witness:
  "cap_getItems (fst (detectCapabilities (logged empty_server) test_client ((), [])))
   \<and> cap_query (fst (detectCapabilities (logged empty_server) test_client ((), [])))
   \<and> map url (snd (snd (snd (detectCapabilities (logged empty_server) test_client ((), []))))) =
       [''http://localhost:8000/api/v2/heartbeat'', ''http://localhost:8000/api/v2/heartbeat'',
        ''http://localhost:8000/api/v2/version'',
        ''http://localhost:8000/api/v2/tenants/default_tenant/databases/default_database/collections'',
        ''http://localhost:8000/api/v2/tenants/default_tenant/databases/default_database/collections'']"
proof -
  have srv: "\<And>req w. url req \<in> collections_urls (storage test_client) \<Longrightarrow>
      \<exists>res w'. empty_server req w = (Resolved res, w') \<and> res_ok res \<and> res_json res = Inr (JArr [])"
    by (simp add: empty_server_def json_response_def)
  have run: "detectCapabilities (logged empty_server) test_client ((), []) =
      (fst (detectCapabilities (logged empty_server) test_client ((), [])),
       fst (snd (detectCapabilities (logged empty_server) test_client ((), []))),
       ((), snd (snd (snd (detectCapabilities (logged empty_server) test_client ((), []))))))"
    by (simp add: prod_eq_iff)
  have sent: "map url (snd (snd (snd (detectCapabilities (logged empty_server) test_client ((), []))))) =
       [''http://localhost:8000/api/v2/heartbeat'', ''http://localhost:8000/api/v2/heartbeat'',
        ''http://localhost:8000/api/v2/version'',
        ''http://localhost:8000/api/v2/tenants/default_tenant/databases/default_database/collections'',
        ''http://localhost:8000/api/v2/tenants/default_tenant/databases/default_database/collections'']"
  proof -
    have pe: "probeUrl empty_server cl p w = (True, w)" for cl p w
      by (simp add: probeUrl_def empty_server_def json_response_def)
    have ce: "chromaFetch empty_server cl p (zod_parse ''CollectionListSchema'' CollectionListSchema)
        no_opts w = (Inr [], w)" for cl p w
      by (simp add: chromaFetch_def empty_server_def json_response_def zod_parse_def
          CollectionListSchema_def)
    show ?thesis
      by (simp add: detectCapabilities_def probeUrl_logged pe listCollections_def
          chromaFetch_logged ce test_client_def
          resolveUrl_def getBaseUrl_def getConnectionMode_def apiBase_def apiPrefix_def
          version_string_def DEFAULT_TENANT_def DEFAULT_DATABASE_def probe_request_def
          chroma_request_def Let_def)
  qed
  from detectCapabilities_no_collections [OF srv run] sent show ?thesis by blast
qed


subsection \<open>Bulk retrieval: the requests\<close>


lemma pages_left_stop: "\<not> off < tot \<Longrightarrow> nat ((tot - off + 499) div 500) = 0"
  by simp















subsection \<open>Bulk retrieval: alignment\<close>













subsection \<open>K-means\<close>

lemma random_index_less:
  assumes "rand_ok rand" "0 < n"
  shows "random_index rand pos n < n"
proof -
  from assms have "0 \<le> rand pos" "rand pos < 1" by (simp_all add: rand_ok_def)
  with assms(2) have "rand pos * real n < real n" "0 \<le> rand pos * real n" by simp_all
  then have "\<lfloor>rand pos * real n\<rfloor> < int n" "0 \<le> \<lfloor>rand pos * real n\<rfloor>"
    by (simp_all add: floor_less_iff)
  then show ?thesis unfolding random_index_def by linarith
qed

lemma nearest_dist_finite: "cs \<noteq> [] \<Longrightarrow> nearest_dist cs p \<noteq> None"
proof -
  have "foldl (\<lambda>minD cen. let d = dist2 p cen in if less_inf d minD then Some d else minD)
          (Some m) cs \<noteq> None" for m cs
    by (induction cs arbitrary: m) (simp_all add: Let_def)
  then show "cs \<noteq> [] \<Longrightarrow> nearest_dist cs p \<noteq> None"
    by (cases cs) (simp_all add: nearest_dist_def Let_def less_inf_def)
qed

lemma pick_range: "pick r ds i = Some j \<Longrightarrow> i \<le> j \<and> j < i + length ds"
proof (induction ds arbitrary: r i)
  case Nil
  then show ?case by simp
next
  case (Cons d ds)
  show ?case
  proof (cases "r - d \<le> 0")
    case True
    with Cons.prems show ?thesis by simp
  next
    case False
    with Cons.prems have "pick (r - d) ds (Suc i) = Some j" by simp
    from Cons.IH [OF this] show ?thesis by simp
  qed
qed

lemma seed_step_props:
  assumes "rand_ok rand" "points \<noteq> []" "set cs \<subseteq> set points"
  shows "length (fst (seed_step rand points (cs, pos))) = Suc (length cs)"
    and "set (fst (seed_step rand points (cs, pos))) \<subseteq> set points"
proof -
  let ?dists = "map (\<lambda>p. case nearest_dist cs p of Some d \<Rightarrow> d | None \<Rightarrow> 0) points"
  show "length (fst (seed_step rand points (cs, pos))) = Suc (length cs)"
    by (simp add: seed_step_def Let_def split: option.splits)
  have "points ! i \<in> set points" if "pick r ?dists 0 = Some i" for r i
    using pick_range [OF that] by simp
  moreover have "points ! random_index rand (Suc pos) (length points) \<in> set points"
    using random_index_less [OF assms(1), of "length points"] assms(2) by simp
  ultimately show "set (fst (seed_step rand points (cs, pos))) \<subseteq> set points"
    using assms(3) by (auto simp: seed_step_def Let_def split: option.splits)
qed

lemma seed_loop_props:
  assumes "rand_ok rand" "points \<noteq> []" "set cs \<subseteq> set points"
  shows "length (fst (foldl (\<lambda>st c. seed_step rand points st) (cs, pos) xs)) = length cs + length xs
       \<and> set (fst (foldl (\<lambda>st c. seed_step rand points st) (cs, pos) xs)) \<subseteq> set points"
  using assms(3)
proof (induction xs arbitrary: cs pos)
  case Nil
  then show ?case by simp
next
  case (Cons c xs)
  obtain cs' pos' where st: "seed_step rand points (cs, pos) = (cs', pos')"
    by (metis prod.collapse)
  with seed_step_props [OF assms(1,2) Cons.prems, of pos]
  have "length cs' = Suc (length cs)" "set cs' \<subseteq> set points" by simp_all
  with Cons.IH [of cs' pos'] st show ?case by simp
qed

lemma seedCentroids_props:
  assumes "rand_ok rand" "points \<noteq> []" "1 \<le> k"
  shows "length (seedCentroids rand points k) = k"
    and "set (seedCentroids rand points k) \<subseteq> set points"
proof -
  have "points ! random_index rand 0 (length points) \<in> set points"
    using random_index_less [OF assms(1), of "length points"] assms(2) by simp
  then have "set [points ! random_index rand 0 (length points)] \<subseteq> set points" by simp
  from seed_loop_props [OF assms(1,2) this, of 1 "[1..<k]"] assms(3)
  show "length (seedCentroids rand points k) = k"
    and "set (seedCentroids rand points k) \<subseteq> set points"
    by (simp_all add: seedCentroids_def)
qed

lemma assign_less: "1 \<le> k \<Longrightarrow> assign centroids k p < k"
proof -
  assume k: "1 \<le> k"
  have "snd (foldl (\<lambda>(minD, best) c.
                   let d = dist2 p (centroids ! c)
                   in if less_inf d minD then (Some d, c) else (minD, best)) st cs) < k"
    if "snd st < k" "\<forall>c \<in> set cs. c < k" for st cs
    using that
  proof (induction cs arbitrary: st)
    case Nil
    then show ?case by simp
  next
    case (Cons c cs)
    then show ?case by (cases st) (simp add: Let_def)
  qed
  from this [of "(None, 0)" "[0..<k]"] k show ?thesis
    by (simp add: assign_def)
qed

lemma update_centroids_length:
  "length (fst (update_centroids points newLabels k centroids)) = length centroids"
proof -
  have "length (fst (foldl (\<lambda>(centroids, changed) c.
              let (sumX, sumY, cnt) =
                    foldl (\<lambda>(sumX, sumY, cnt) i.
                             if newLabels ! i = c
                             then (sumX + fst (points ! i), sumY + snd (points ! i), Suc cnt)
                             else (sumX, sumY, cnt))
                      (0, 0, 0) [0..<length points]
              in if cnt > 0 then
                   let nx = sumX / real cnt; ny = sumY / real cnt
                   in (centroids[c := (nx, ny)],
                       changed \<or> nx \<noteq> fst (centroids ! c) \<or> ny \<noteq> snd (centroids ! c))
                 else (centroids, changed)) st cs)) = length (fst st)" for st cs
    by (induction cs arbitrary: st) (auto simp: Let_def split: prod.splits)
  from this [of "(centroids, False)" "[0..<k]"] show ?thesis
    by (simp add: update_centroids_def)
qed

lemma kMeans_iterate_props:
  assumes "1 \<le> k" "length centroids = k" "length labels = length points" "\<forall>l \<in> set labels. l < k"
  shows "length (fst (kMeans_iterate points k m labels centroids)) = length points
       \<and> (\<forall>l \<in> set (fst (kMeans_iterate points k m labels centroids)). l < k)
       \<and> length (snd (kMeans_iterate points k m labels centroids)) = k"
  using assms(2-)
proof (induction m arbitrary: labels centroids)
  case 0
  then show ?case by simp
next
  case (Suc m)
  let ?new = "map (assign centroids k) points"
  obtain cs' changed where u: "update_centroids points ?new k centroids = (cs', changed)"
    by (metis prod.collapse)
  with update_centroids_length [of points ?new k centroids] Suc.prems
  have len: "length cs' = k" by simp
  have new: "length ?new = length points" "\<forall>l \<in> set ?new. l < k"
    using assign_less [OF assms(1)] by simp_all
  show ?case
  proof (cases changed)
    case False
    with u len new show ?thesis by (simp add: Let_def)
  next
    case True
    with u Suc.IH [OF len new] show ?thesis by (simp add: Let_def)
  qed
qed

text \<open>
  Claim C8. For every non-empty list of points and every \<open>k \<ge> 1\<close>, \<open>kMeans\<close> returns one
  label per point, every label below \<open>k\<close>, and exactly \<open>k\<close> centroids. With \<open>maxIter = 0\<close>
  it returns the seeded centroids unmoved, each of them one of the points, and the
  assignment of every point to cluster 0.
\<close>

theorem kMeans_labels_and_centroids:
  assumes "points \<noteq> []" "1 \<le> k" "rand_ok rand"
  shows "length (fst (kMeans rand points k maxIter)) = length points
       \<and> (\<forall>l \<in> set (fst (kMeans rand points k maxIter)). l < k)
       \<and> length (snd (kMeans rand points k maxIter)) = k
       \<and> kMeans rand points k 0 = (replicate (length points) 0, seedCentroids rand points k)
       \<and> length (seedCentroids rand points k) = k
       \<and> set (seedCentroids rand points k) \<subseteq> set points"
proof -
  note seeds = seedCentroids_props [OF assms(3,1,2)]
  have "\<forall>l \<in> set (replicate (length points) (0::nat)). l < k" using assms(2) by simp
  from kMeans_iterate_props [OF assms(2) seeds(1) _ this, of points maxIter] assms(1) seeds
  show ?thesis by (simp add: kMeans_def)
qed

theorem kMeans_labels_and_centroids_witness:
  "[(0, 0), (1, 0), (10, 10), (11, 10)] \<noteq> ([] :: point list) \<and> (1::nat) \<le> 2
   \<and> rand_ok (\<lambda>i. 1 / 2)
   \<and> kMeans (\<lambda>i. 1 / 2) [(0, 0), (1, 0), (10, 10), (11, 10)] 2 50
       = ([1, 1, 0, 0], [(21 / 2, 10), (1 / 2, 0)])
   \<and> kMeans (\<lambda>i. 1 / 2) [(0, 0), (1, 0), (10, 10), (11, 10)] 2 0
       = ([0, 0, 0, 0], [(10, 10), (0, 0)])
   \<and> length (snd (kMeans (\<lambda>i. 1 / 2) [(0, 0), (1, 0), (10, 10), (11, 10)] 2 50)) = 2"
proof -
  have r: "rand_ok (\<lambda>i. 1 / 2)" by (simp add: rand_ok_def)
  have ne: "[(0, 0), (1, 0), (10, 10), (11, 10)] \<noteq> ([] :: point list)" by simp
  have k: "(1::nat) \<le> 2" by simp
  have e50: "kMeans (\<lambda>i. 1 / 2) [(0, 0), (1, 0), (10, 10), (11, 10)] 2 50
       = ([1, 1, 0, 0], [(21 / 2, 10), (1 / 2, 0)])"
    by code_simp
  have e0: "kMeans (\<lambda>i. 1 / 2) [(0, 0), (1, 0), (10, 10), (11, 10)] 2 0
       = ([0, 0, 0, 0], [(10, 10), (0, 0)])"
    by code_simp
  from kMeans_labels_and_centroids [OF ne k r, of 50] r ne k e50 e0 show ?thesis
    by (simp only: simp_thms)
qed

subsection \<open>PCA projection\<close>

lemma map_index_nth: "map (\<lambda>i. (f (xs ! i), g (xs ! i))) [0..<length xs] = map (\<lambda>v. (f v, g v)) xs"
  by (rule nth_equalityI) simp_all

lemma pcaProject_eq_map:
  "pcaProject rand embs =
     map (\<lambda>vec. (dot_at (center (pca_mean embs) vec) (pca_pc1 rand embs),
                  dot_at (center (pca_mean embs) vec) (pca_pc2 rand embs))) embs"
proof (cases "embs = []")
  case True
  then show ?thesis by (simp add: pcaProject_def)
next
  case False
  let ?m = "pca_mean embs"
  have "pcaProject rand embs =
      map (\<lambda>i. (map (\<lambda>vec. dot_at vec (pca_pc1 rand embs)) (map (center ?m) embs) ! i,
                 map (\<lambda>vec. dot_at vec (pca_pc2 rand embs)) (map (center ?m) embs) ! i))
        [0..<length embs]"
    using False
    by (simp add: pcaProject_def Let_def projectOnto_def pca_pc1_def pca_pc2_def pca_mean_def)
  also have "\<dots> = map (\<lambda>i. (dot_at (center ?m (embs ! i)) (pca_pc1 rand embs),
                            dot_at (center ?m (embs ! i)) (pca_pc2 rand embs))) [0..<length embs]"
    by simp
  also have "\<dots> = map (\<lambda>vec. (dot_at (center ?m vec) (pca_pc1 rand embs),
                              dot_at (center ?m vec) (pca_pc2 rand embs))) embs"
    by (rule map_index_nth)
  finally show ?thesis .
qed

text \<open>
  Claim C7. For every list of vectors of equal dimension, \<open>pcaProject\<close> returns exactly one
  pair per input vector, the \<open>i\<close>-th pair being the projection of the \<open>i\<close>-th centred vector
  onto the two directions found; the empty list gives the empty list.
\<close>

theorem pcaProject_one_pair_per_vector:
  assumes "equal_dimension embs"
  shows "length (pcaProject rand embs) = length embs
       \<and> (\<forall>i < length embs.
             pcaProject rand embs ! i =
               (dot_at (center (pca_mean embs) (embs ! i)) (pca_pc1 rand embs),
                dot_at (center (pca_mean embs) (embs ! i)) (pca_pc2 rand embs)))
       \<and> pcaProject rand [] = []"
  by (simp add: pcaProject_eq_map)

theorem pcaProject_one_pair_per_vector_witness:
  "length (pcaProject (\<lambda>i. 1 / 2) [[1, 2], [3, 4], [5, 7]]) = 3"
proof -
  have e: "equal_dimension [[1, 2], [3, 4], [5, 7]]"
    by (simp add: equal_dimension_def)
  from pcaProject_one_pair_per_vector [OF e, of "\<lambda>i. 1 / 2"] show ?thesis by simp
qed

subsection \<open>Cosine similarity in exact arithmetic\<close>

lemma cosine_sums:
  "foldl (\<lambda>(dot, magA, magB) i.
            (dot + a ! i * b ! i, magA + a ! i * a ! i, magB + b ! i * b ! i))
      (d, ma, mb) [0..<n]
   = (d + (\<Sum>i<n. a ! i * b ! i), ma + (\<Sum>i<n. a ! i * a ! i), mb + (\<Sum>i<n. b ! i * b ! i))"
  by (induction n) (simp_all add: algebra_simps)

lemma cosineSimilarity_eq:
  "cosineSimilarity a b =
     (if sqrt (\<Sum>i<length a. a ! i * a ! i) * sqrt (\<Sum>i<length a. b ! i * b ! i) = 0 then 0
      else (\<Sum>i<length a. a ! i * b ! i) /
           (sqrt (\<Sum>i<length a. a ! i * a ! i) * sqrt (\<Sum>i<length a. b ! i * b ! i)))"
  by (simp add: cosineSimilarity_def cosine_sums Let_def)




lemma cosineSimilarity_zero:
  assumes "(\<Sum>i<length a. a ! i * a ! i) = 0 \<or> (\<Sum>i<length a. b ! i * b ! i) = 0"
  shows "cosineSimilarity a b = 0"
  using assms unfolding cosineSimilarity_eq by auto


lemma cosineSimilarity_examples:
  "cosineSimilarity [1, 2, 3] [2, 4, 6] = 1" "cosineSimilarity [1, 0] [0, 1] = 0"
proof -
  have "sqrt 14 * sqrt 56 = sqrt (28 * 28)"
    by (simp only: real_sqrt_mult [symmetric]) simp
  then have "sqrt 14 * sqrt 56 = 28" by simp
  then show "cosineSimilarity [1, 2, 3] [2, 4, 6] = 1"
    by (simp add: cosineSimilarity_eq lessThan_nat_numeral lessThan_Suc)
  show "cosineSimilarity [1, 0] [0, 1] = 0"
    by (simp add: cosineSimilarity_eq lessThan_nat_numeral lessThan_Suc)
qed


subsection \<open>The sample and the matrix loops\<close>














subsection \<open>Cosine similarity in double arithmetic\<close>

lemma round_even_near:
  assumes "of_int m - 1 / 2 < x" "x < of_int m + 1 / 2"
  shows "round_even x = m"
proof (cases "of_int m \<le> x")
  case True
  with assms have "\<lfloor>x\<rfloor> = m" by (intro floor_unique) simp_all
  with assms show ?thesis by (simp add: round_even_def Let_def)
next
  case False
  with assms have "\<lfloor>x\<rfloor> = m - 1" by (intro floor_unique) simp_all
  with assms False show ?thesis by (simp add: round_even_def Let_def)
qed

lemma fl_at:
  assumes "2 powi k \<le> x" "x < 2 powi (k + 1)"
  shows "fl x = of_int (round_even (x / 2 powi (k - 52))) * 2 powi (k - 52)"
proof -
  have "(0::real) < 2 powi k" by (rule zero_less_power_int) simp
  with assms(1) have pos: "0 < x" by linarith
  have "(2::real) powr (real_of_int k) = 2 powi k"
    by (simp add: powr_real_of_int')
  moreover have "(2::real) powr (real_of_int k + 1) = 2 powi (k + 1)"
    using powr_real_of_int' [of 2 "k + 1"] by simp
  ultimately have "2 powr (real_of_int k) \<le> x \<and> x < 2 powr (real_of_int k + 1)"
    using assms by simp
  hence "\<lfloor>log 2 x\<rfloor> = k"
    using floor_log_eq_powr_iff [of x 2 k] pos by simp
  with pos show ?thesis by (simp add: fl_def Let_def)
qed









text \<open>
  The rounding at work on a familiar case: in double arithmetic \<open>0.1 + 0.2\<close> is not
  \<open>0.3\<close> (the sum lies halfway between two doubles and goes to the even one).
\<close>

lemma round_even_half: "round_even (of_int m + 1 / 2) = (if even m then m else m + 1)"
proof -
  have "\<lfloor>of_int m + 1 / 2 :: real\<rfloor> = m" by (intro floor_unique) simp_all
  then show ?thesis by (simp add: round_even_def Let_def)
qed

lemma fl_tenths:
  "fl (1 / 10) = 7205759403792794 / 2 ^ 56"
  "fl (2 / 10) = 7205759403792794 / 2 ^ 55"
  "fl (3 / 10) = 5404319552844595 / 2 ^ 54"
  "fl (fl (1 / 10) + fl (2 / 10)) = 5404319552844596 / 2 ^ 54"
proof -
  have p: "(2::real) powi (- 4) = 1 / 2 ^ 4" "(2::real) powi (- 3) = 1 / 2 ^ 3"
    "(2::real) powi (- 2) = 1 / 2 ^ 2" "(2::real) powi (- 1) = 1 / 2"
    "(2::real) powi (- 56) = 1 / 2 ^ 56" "(2::real) powi (- 55) = 1 / 2 ^ 55"
    "(2::real) powi (- 54) = 1 / 2 ^ 54"
    by (simp_all add: power_int_minus field_simps)
  have a: "round_even (1 / 10 * 2 ^ 56) = 7205759403792794"
    by (rule round_even_near) simp_all
  from fl_at [of "- 4" "1 / 10"] a show 1: "fl (1 / 10) = 7205759403792794 / 2 ^ 56"
    by (simp add: p)
  have b: "round_even (2 / 10 * 2 ^ 55) = 7205759403792794"
    by (rule round_even_near) simp_all
  from fl_at [of "- 3" "2 / 10"] b show 2: "fl (2 / 10) = 7205759403792794 / 2 ^ 55"
    by (simp add: p)
  have c: "round_even (3 / 10 * 2 ^ 54) = 5404319552844595"
    by (rule round_even_near) simp_all
  from fl_at [of "- 2" "3 / 10"] c show "fl (3 / 10) = 5404319552844595 / 2 ^ 54"
    by (simp add: p)
  let ?s = "7205759403792794 / 2 ^ 56 + 7205759403792794 / 2 ^ 55 :: real"
  have "?s * 2 ^ 54 = of_int 5404319552844595 + 1 / 2" by simp
  then have d: "round_even (?s * 2 ^ 54) = 5404319552844596"
    by (simp only: round_even_half) simp
  from fl_at [of "- 2" ?s] d show "fl (fl (1 / 10) + fl (2 / 10)) = 5404319552844596 / 2 ^ 54"
    unfolding 1 2 by (simp add: p)
qed




end
